theory Spec2Isabelle
  imports Main
begin

section \<open>The LSIF server and worker\<close>

text \<open>
  A shallow embedding of \<^verbatim>\<open>src/lsif/src/server.ts\<close> and \<^verbatim>\<open>src/lsif/src/worker.ts\<close>.
  Effects are explicit: the file system is a map from paths to contents, the queue and the
  logger are lists, a thrown error is the \<open>Inl\<close> of a sum. Functions of modules that are
  not among the sources (\<^verbatim>\<open>./util\<close>, \<^verbatim>\<open>./input\<close>, \<^verbatim>\<open>./queue\<close>, \<^verbatim>\<open>./importer\<close>,
  \<^verbatim>\<open>./xrepo\<close>, \<^verbatim>\<open>./commits\<close>) are parameters, or are modelled from the specification.
\<close>

subsection \<open>JavaScript values\<close>

text \<open>
  A value of \<^verbatim>\<open>req.query\<close> as the query-string parser produces it: absent, a string,
  an array or a nested object.
\<close>

datatype query_value =
    Undefined
  | Str string
  | Arr "query_value list"
  | Obj "(string \<times> query_value) list"

text \<open>\<^verbatim>\<open>typeof v !== 'string'\<close>\<close>

fun not_string :: "query_value \<Rightarrow> bool" where
  "not_string (Str s) = False"
| "not_string v = True"

text \<open>Truthiness of a query value: only \<^verbatim>\<open>undefined\<close> and the empty string are falsy.\<close>

fun truthy :: "query_value \<Rightarrow> bool" where
  "truthy Undefined = False"
| "truthy (Str s) = (s \<noteq> [])"
| "truthy v = True"

fun join_with :: "string \<Rightarrow> string list \<Rightarrow> string" where
  "join_with sep [] = []"
| "join_with sep [x] = x"
| "join_with sep (x # y # ys) = x @ sep @ join_with sep (y # ys)"

text \<open>
  String conversion, as a template literal performs it; \<open>None\<close> is the \<^verbatim>\<open>TypeError\<close> of a
  value that cannot be converted to a primitive. The query parser of Express keeps keys
  that shadow properties of \<^verbatim>\<open>Object.prototype\<close>, so an object of the query may carry an
  own \<^verbatim>\<open>toString\<close> entry; its value is a string, an array or an object, never a
  function, and the \<^verbatim>\<open>valueOf\<close> the conversion tries next returns the object itself. An
  array is converted by joining the conversions of its elements.
\<close>

fun js_String :: "query_value \<Rightarrow> string option" where
  "js_String Undefined = Some ''undefined''"
| "js_String (Str s) = Some s"
| "js_String (Arr vs) =
     map_option (join_with '','')
       (those (map (\<lambda>v. if v = Undefined then Some [] else js_String v) vs))"
| "js_String (Obj kvs) =
     (if ''toString'' \<in> fst ` set kvs then None else Some ''[object Object]'')"


text \<open>
  A thrown value: an \<^verbatim>\<open>Error\<close> object with an optional numeric \<^verbatim>\<open>status\<close> and an
  optional \<^verbatim>\<open>message\<close>.
\<close>

record error =
  status :: "nat option"
  message :: "string option"

text \<open>\<^verbatim>\<open>Object.assign(new Error(msg), { status: n })\<close> and \<^verbatim>\<open>Object.assign(e, { status: n })\<close>\<close>

definition new_Error :: "string \<Rightarrow> nat \<Rightarrow> error" where
  "new_Error msg n = \<lparr>status = Some n, message = Some msg\<rparr>"

definition assign_status :: "error \<Rightarrow> nat \<Rightarrow> error" where
  "assign_status e n = e\<lparr>status := Some n\<rparr>"

text \<open>The errors the runtime throws by itself carry no status.\<close>

definition TypeError :: error where
  "TypeError = \<lparr>status = None, message = Some ''Cannot convert object to primitive value''\<rparr>"

definition RangeError :: error where
  "RangeError = \<lparr>status = None, message = Some ''Invalid status code''\<rparr>"

text \<open>
  \<^verbatim>\<open>x || d\<close> on an optional number and on an optional string: zero and the empty string
  are falsy, as an absent field is.
\<close>

fun number_or :: "nat option \<Rightarrow> nat \<Rightarrow> nat" where
  "number_or None d = d"
| "number_or (Some n) d = (if n = 0 then d else n)"

fun string_or :: "string option \<Rightarrow> string \<Rightarrow> string" where
  "string_or None d = d"
| "string_or (Some s) d = (if s = [] then d else s)"

fun falsy_number :: "nat option \<Rightarrow> bool" where
  "falsy_number None = True"
| "falsy_number (Some n) = (n = 0)"

subsection \<open>Paths, files and the environment\<close>

type_synonym path = string
type_synonym file_system = "path \<rightharpoonup> string"
type_synonym process_env = "string \<rightharpoonup> string"

text \<open>\<^verbatim>\<open>path.join\<close> on segments that need no normalisation.\<close>

definition path_join :: "string list \<Rightarrow> path" where
  "path_join segments = join_with ''/'' segments"

text \<open>\<^verbatim>\<open>process.env.LSIF_STORAGE_ROOT || 'lsif-storage'\<close>\<close>

definition STORAGE_ROOT :: "process_env \<Rightarrow> path" where
  "STORAGE_ROOT penv = string_or (penv ''LSIF_STORAGE_ROOT'') ''lsif-storage''"

datatype fs_error = ENOENT path

text \<open>
  The calls of \<^verbatim>\<open>mz/fs\<close> the sources make. A missing source path is the one failure of
  \<^verbatim>\<open>rename\<close> and \<^verbatim>\<open>unlink\<close> that depends on the file system alone.
\<close>

definition fs_exists :: "file_system \<Rightarrow> path \<Rightarrow> bool" where
  "fs_exists fs p = (fs p \<noteq> None)"

definition fs_error_of :: "fs_error \<Rightarrow> error" where
  "fs_error_of e = (case e of ENOENT p \<Rightarrow>
     \<lparr>status = None, message = Some (''ENOENT: no such file or directory, '' @ p)\<rparr>)"

definition fs_rename :: "file_system \<Rightarrow> path \<Rightarrow> path \<Rightarrow> error + file_system" where
  "fs_rename fs old new =
     (case fs old of
        None \<Rightarrow> Inl (fs_error_of (ENOENT old))
      | Some content \<Rightarrow> Inr ((fs(old := None))(new \<mapsto> content)))"

definition fs_unlink :: "file_system \<Rightarrow> path \<Rightarrow> error + file_system" where
  "fs_unlink fs p =
     (case fs p of
        None \<Rightarrow> Inl (fs_error_of (ENOENT p))
      | Some content \<Rightarrow> Inr (fs(p := None)))"

text \<open>\<^verbatim>\<open>fs.close(await fs.open(p, 'w'))\<close>: the file exists afterwards and is empty.\<close>

definition fs_touch :: "file_system \<Rightarrow> path \<Rightarrow> file_system" where
  "fs_touch fs p = fs(p \<mapsto> [])"

subsection \<open>Parameter checks of the HTTP surface\<close>

definition checkRepository :: "query_value \<Rightarrow> error + unit" where
  "checkRepository repository =
     (if not_string repository
      then Inl (new_Error ''Must specify the repository (usually of the form github.com/user/repo)'' 400)
      else Inr ())"

text \<open>
  The regular expression \<^verbatim>\<open>/^[0-9a-f]+$/\<close>: one or more characters, each a digit or a
  lower-case letter from a to f. Every accepted character is ASCII, so the number of
  \<open>char\<close>s of an accepted string is its JavaScript \<^verbatim>\<open>length\<close>.
\<close>

definition lower_hex :: "char \<Rightarrow> bool" where
  "lower_hex c = (c \<in> set ''0123456789abcdef'')"

definition hex_regex_test :: "string \<Rightarrow> bool" where
  "hex_regex_test s = (s \<noteq> [] \<and> list_all lower_hex s)"

definition checkCommit :: "query_value \<Rightarrow> error + unit" where
  "checkCommit commit =
     (if (case commit of
            Str s \<Rightarrow> length s \<noteq> 40 \<or> \<not> hex_regex_test s
          | _ \<Rightarrow> True)
      then (case js_String commit of
              None \<Rightarrow> Inl TypeError
            | Some shown \<Rightarrow>
                Inl (new_Error (''Must specify the commit as a 40 character hash '' @ shown) 400))
      else Inr ())"

definition checkFile :: "query_value \<Rightarrow> error + unit" where
  "checkFile file =
     (if not_string file
      then (case js_String file of
              None \<Rightarrow> Inl TypeError
            | Some shown \<Rightarrow> Inl (new_Error (''Must specify a file '' @ shown) 400))
      else Inr ())"

definition checkMethod :: "query_value \<Rightarrow> string list \<Rightarrow> error + unit" where
  "checkMethod method supportedMethods =
     (if \<not> (case method of Str m \<Rightarrow> m \<in> set supportedMethods | _ \<Rightarrow> False)
      then Inl (new_Error (''Method must be one of '' @ join_with '', '' supportedMethods) 422)
      else Inr ())"

text \<open>Sequencing of calls that may throw: the first error ends the handler.\<close>

definition and_then :: "error + 'a \<Rightarrow> ('a \<Rightarrow> error + 'b) \<Rightarrow> error + 'b" where
  "and_then r f = (case r of Inl e \<Rightarrow> Inl e | Inr x \<Rightarrow> f x)"

text \<open>
  \<^verbatim>\<open>req.query\<close> destructured: a parameter the request does not carry is
  \<^verbatim>\<open>undefined\<close>.
\<close>

definition query_param :: "(string \<rightharpoonup> query_value) \<Rightarrow> string \<Rightarrow> query_value" where
  "query_param q k = (case q k of None \<Rightarrow> Undefined | Some v \<Rightarrow> v)"

text \<open>The checks each endpoint runs before any other work, in the handler's order.\<close>

definition upload_checks :: "(string \<rightharpoonup> query_value) \<Rightarrow> error + unit" where
  "upload_checks q =
     and_then (checkRepository (query_param q ''repository''))
       (\<lambda>_. checkCommit (query_param q ''commit''))"

definition exists_checks :: "(string \<rightharpoonup> query_value) \<Rightarrow> error + unit" where
  "exists_checks q =
     and_then (checkRepository (query_param q ''repository''))
       (\<lambda>_. and_then (checkCommit (query_param q ''commit''))
         (\<lambda>_. checkFile (query_param q ''file'')))"

definition request_checks :: "(string \<rightharpoonup> query_value) \<Rightarrow> query_value \<Rightarrow> error + unit" where
  "request_checks q method =
     and_then (checkRepository (query_param q ''repository''))
       (\<lambda>_. and_then (checkCommit (query_param q ''commit''))
         (\<lambda>_. checkMethod method [''definitions'', ''references'', ''hover'']))"

subsection \<open>The error handler\<close>

datatype response_body = Text string | MessageJson string | NoBody

record response =
  headersSent :: bool
  statusCode :: nat
  sent :: "response_body option"

definition fresh_response :: response where
  "fresh_response = \<lparr>headersSent = False, statusCode = 200, sent = None\<rparr>"

datatype log_entry = ErrorLog string "error option" | DebugLog string

text \<open>
  \<^verbatim>\<open>error\<close> has type \<^verbatim>\<open>any\<close>: \<open>None\<close> is a null or undefined error.
  \<^verbatim>\<open>error && error.status\<close> is then falsy as well.
\<close>

definition error_status :: "error option \<Rightarrow> nat option" where
  "error_status error = (case error of None \<Rightarrow> None | Some e \<Rightarrow> status e)"

definition error_message :: "error option \<Rightarrow> string option" where
  "error_message error = (case error of None \<Rightarrow> None | Some e \<Rightarrow> message e)"

text \<open>
  \<^verbatim>\<open>res.status(n).send(payload)\<close>, a call into Express and the HTTP module of Node: a
  status outside 100 to 999 is refused with a \<^verbatim>\<open>RangeError\<close> when the head is written,
  and a response of status 1xx, 204 or 304 is sent without its body.
\<close>

definition status_send :: "response \<Rightarrow> nat \<Rightarrow> response_body \<Rightarrow> error + response" where
  "status_send res n payload =
     (if n < 100 \<or> 999 < n then Inl RangeError
      else Inr (res\<lparr>headersSent := True, statusCode := n,
                   sent := Some (if n < 200 \<or> n = 204 \<or> n = 304 then NoBody else payload)\<rparr>))"

text \<open>
  The handler returns the logger and either the response it has sent or the error it has
  thrown itself; when the headers are already sent it leaves the response as it is.
\<close>

definition errorHandler ::
  "log_entry list \<Rightarrow> error option \<Rightarrow> response \<Rightarrow> log_entry list \<times> (error + response)" where
  "errorHandler logger error res =
     (let logger' =
            (if error = None \<or> falsy_number (error_status error)
             then logger @ [ErrorLog ''uncaught exception'' error]
             else logger)
      in if \<not> headersSent res
         then (logger',
               status_send res (number_or (error_status error) 500)
                 (MessageJson (string_or (error_message error) ''Unknown error'')))
         else (logger', Inr res))"

subsection \<open>The queue\<close>

record job =
  job_name :: string
  job_args :: "(string \<times> query_value) list"

record job_queue =
  jobs :: "job list"

text \<open>
  Modelled from the spec: \<^verbatim>\<open>enqueue\<close> of \<^verbatim>\<open>./queue\<close>, which is not among the sources.
  The queue is durable and delivers named jobs: enqueueing appends a job of the given name
  and arguments.
\<close>

definition enqueue :: "job_queue \<Rightarrow> string \<Rightarrow> (string \<times> query_value) list \<Rightarrow> job_queue" where
  "enqueue q name args = q\<lparr>jobs := jobs q @ [\<lparr>job_name = name, job_args = args\<rparr>]\<rparr>"

subsection \<open>The upload endpoint\<close>

text \<open>
  The functions of \<^verbatim>\<open>./input\<close> and \<^verbatim>\<open>mz/zlib\<close> the upload pipeline composes, as
  parameters; \<open>'e\<close> is the type of a parsed LSIF element. \<open>interrupted_output\<close> is what
  had reached the output file when the pipeline rejected.
\<close>

record 'e input_functions =
  readGzippedJsonElements :: "string \<Rightarrow> error + 'e list"
  validateLsifElements :: "'e list \<Rightarrow> error + 'e list"
  stringifyJsonLines :: "'e list \<Rightarrow> string"
  createGzip :: "string \<Rightarrow> string"
  interrupted_output :: "string \<Rightarrow> string"

text \<open>
  \<^verbatim>\<open>Readable.from(stringifyJsonLines(validateLsifElements(readGzippedJsonElements(req)))).pipe(createGzip())\<close>
\<close>

definition validated_stream :: "'e input_functions \<Rightarrow> string \<Rightarrow> error + string" where
  "validated_stream fns body =
     (case readGzippedJsonElements fns body of
        Inl e \<Rightarrow> Inl e
      | Inr elements \<Rightarrow>
          (case validateLsifElements fns elements of
             Inl e \<Rightarrow> Inl e
           | Inr valid \<Rightarrow> Inr (createGzip fns (stringifyJsonLines fns valid))))"

record upload_request =
  query :: "string \<rightharpoonup> query_value"
  body :: string

record server_state =
  files :: file_system
  queue :: job_queue
  server_log :: "log_entry list"

definition upload_filename :: "process_env \<Rightarrow> string \<Rightarrow> path" where
  "upload_filename penv uuid = path_join [STORAGE_ROOT penv, ''uploads'', uuid]"

definition convert_args ::
  "query_value \<Rightarrow> query_value \<Rightarrow> query_value \<Rightarrow> path \<Rightarrow> (string \<times> query_value) list" where
  "convert_args repository commit root filename =
     [(''repository'', repository), (''commit'', commit),
      (''root'', if truthy root then root else Str []), (''filename'', Str filename)]"

text \<open>
  A promise the handler awaits: it resolves, it rejects, or it never settles.
\<close>

datatype 'a promise = Resolved 'a | Rejected error | Pending

text \<open>
  The call of \<^verbatim>\<open>pipeline\<close>. With \<^verbatim>\<open>skipValidation\<close> the request itself is piped to the
  output file. Otherwise \<^verbatim>\<open>pipeline\<close> is given the gzip stream and the output file only:
  the stream of validated lines is attached to the gzip stream with \<^verbatim>\<open>.pipe()\<close>, which
  forwards data and the end of the stream but no error. When parsing or validation throws,
  the error is emitted on that stream, where nothing listens for it; the gzip stream is
  never ended and the promise of \<^verbatim>\<open>pipeline\<close> never settles. Reading the request and
  writing the file do not fail in this model, so the promise never rejects.
\<close>

definition upload_pipeline :: "'e input_functions \<Rightarrow> bool \<Rightarrow> string \<Rightarrow> string promise" where
  "upload_pipeline fns skipValidation content =
     (if skipValidation then Resolved content
      else (case validated_stream fns content of
              Inl e \<Rightarrow> Pending
            | Inr written \<Rightarrow> Resolved written))"

text \<open>
  The handler of \<^verbatim>\<open>POST /upload\<close>; \<open>uuid\<close> is the value \<^verbatim>\<open>uuid.v4()\<close> returns.
  \<^verbatim>\<open>fs.createWriteStream\<close> creates the output file, so it exists whether or not the
  pipeline completes. The \<^verbatim>\<open>catch\<close> block gives status 422 to whatever \<^verbatim>\<open>pipeline\<close>
  rejects with. The queue does not fail in this model.
\<close>

definition upload ::
  "process_env \<Rightarrow> 'e input_functions \<Rightarrow> string \<Rightarrow> upload_request \<Rightarrow> server_state
     \<Rightarrow> response promise \<times> server_state" where
  "upload penv fns uuid req st =
     (let repository = query_param (query req) ''repository'';
          commit = query_param (query req) ''commit'';
          root = query_param (query req) ''root'';
          skipValidationRaw = query_param (query req) ''skipValidation'';
          skipValidation = (skipValidationRaw = Str ''true'')
      in case checkRepository repository of
           Inl e \<Rightarrow> (Rejected e, st)
         | Inr _ \<Rightarrow>
        (case checkCommit commit of
           Inl e \<Rightarrow> (Rejected e, st)
         | Inr _ \<Rightarrow>
        (let filename = upload_filename penv uuid
         in case upload_pipeline fns skipValidation (body req) of
              Rejected e \<Rightarrow>
                (Rejected (assign_status e 422),
                 st\<lparr>files := (files st)(filename \<mapsto> interrupted_output fns (body req))\<rparr>)
            | Pending \<Rightarrow>
                (Pending,
                 st\<lparr>files := (files st)(filename \<mapsto> interrupted_output fns (body req))\<rparr>)
            | Resolved written \<Rightarrow>
                (Resolved (fresh_response\<lparr>headersSent := True,
                        sent := Some (Text (''Upload successful, queued for processing.'' @ [CHR 0x0A]))\<rparr>),
                 st\<lparr>files := (files st)(filename \<mapsto> written),
                    server_log := server_log st @ [DebugLog ''enqueueing convert job''],
                    queue := enqueue (queue st) ''convert''
                               (convert_args repository commit root filename)\<rparr>))))"

text \<open>
  The route as the application serves it: an error the handler throws is passed to the
  error handler, which is registered last. The request is answered by a handler of this
  file, or it is left unanswered, or the error handler has thrown and the error goes on to
  the default handler of Express.
\<close>

datatype served = Answered response | Unanswered | Unhandled error

definition post_upload ::
  "process_env \<Rightarrow> 'e input_functions \<Rightarrow> string \<Rightarrow> upload_request \<Rightarrow> server_state
     \<Rightarrow> served \<times> server_state" where
  "post_upload penv fns uuid req st =
     (case upload penv fns uuid req st of
        (Resolved res, st') \<Rightarrow> (Answered res, st')
      | (Pending, st') \<Rightarrow> (Unanswered, st')
      | (Rejected e, st') \<Rightarrow>
          (case errorHandler (server_log st') (Some e) fresh_response of
             (logger', Inr res) \<Rightarrow> (Answered res, st'\<lparr>server_log := logger'\<rparr>)
           | (logger', Inl thrown) \<Rightarrow> (Unhandled thrown, st'\<lparr>server_log := logger'\<rparr>)))"

text \<open>The status of the response, when the request is answered.\<close>

fun answered_status :: "served \<Rightarrow> nat option" where
  "answered_status (Answered res) = Some (statusCode res)"
| "answered_status other = None"

subsection \<open>The cross-repository database and the helpers of the worker\<close>

text \<open>
  Modelled from the spec: a row of \<^verbatim>\<open>lsif_dumps\<close> (\<^verbatim>\<open>./xrepo.models\<close> is not among the
  sources). A dump has an integer identity and the attributes repository, commit and root;
  identities are assigned monotonically, so the table carries the next one.
\<close>

record lsif_dump =
  dump_id :: nat
  dump_repository :: string
  dump_commit :: string
  dump_root :: string

record xrepo_database =
  lsif_dumps :: "lsif_dump list"
  next_dump_id :: nat

definition same_upload :: "string \<Rightarrow> string \<Rightarrow> string \<Rightarrow> lsif_dump \<Rightarrow> bool" where
  "same_upload repository commit root d =
     (dump_repository d = repository \<and> dump_commit d = commit \<and> dump_root d = root)"

text \<open>
  Modelled from the spec: \<^verbatim>\<open>addPackagesAndReferences\<close> of \<^verbatim>\<open>./xrepo\<close>, which is not
  among the sources. It is transactional: it replaces the dump row of the same repository,
  commit and root by a row with a newly assigned identity and returns that dump; a failure
  (\<open>fault\<close>, a database error) leaves the database as it was. The rows of packages and
  references are not modelled.
\<close>

definition addPackagesAndReferences ::
  "error option \<Rightarrow> xrepo_database \<Rightarrow> string \<Rightarrow> string \<Rightarrow> string \<Rightarrow> 'x
     \<Rightarrow> (error + lsif_dump) \<times> xrepo_database" where
  "addPackagesAndReferences fault db repository commit root packages_references =
     (case fault of
        Some e \<Rightarrow> (Inl e, db)
      | None \<Rightarrow>
          (let dump = \<lparr>dump_id = next_dump_id db, dump_repository = repository,
                       dump_commit = commit, dump_root = root\<rparr>
           in (Inr dump,
               \<lparr>lsif_dumps = filter (\<lambda>d. \<not> same_upload repository commit root d) (lsif_dumps db) @ [dump],
                next_dump_id = Suc (next_dump_id db)\<rparr>)))"

text \<open>
  Modelled from the spec: \<^verbatim>\<open>convertLsif\<close> of \<^verbatim>\<open>./importer\<close>, which is not among the
  sources. The importer reads the upload and, when it succeeds, has written a new dump
  store at the temp path and returns the packages and references of the dump. When it
  fails, the spec does not say what is at the temp path: the partial store, or nothing
  (the conversion is aborted \<^emph>\<open>with artifacts removed\<close>, or it fails before the store is
  created). \<open>importer\<close> maps the content of the upload (\<open>None\<close> when the file is missing)
  to the outcome.
\<close>

datatype 'x import_result =
    Imported 'x string
  | Aborted error "string option"

definition convertLsif ::
  "(string option \<Rightarrow> 'x import_result) \<Rightarrow> file_system \<Rightarrow> path \<Rightarrow> path
     \<Rightarrow> (error + 'x) \<times> file_system" where
  "convertLsif importer fs filename tempFile =
     (case importer (fs filename) of
        Imported packages_references database \<Rightarrow> (Inr packages_references, fs(tempFile \<mapsto> database))
      | Aborted e None \<Rightarrow> (Inl e, fs)
      | Aborted e (Some partial) \<Rightarrow> (Inl e, fs(tempFile \<mapsto> partial)))"

text \<open>The path helpers of \<^verbatim>\<open>./util\<close>, which is not among the sources, as parameters.\<close>

record util_functions =
  dbFilename :: "path \<Rightarrow> nat \<Rightarrow> string \<Rightarrow> string \<Rightarrow> path"
  dbFilenameOld :: "path \<Rightarrow> string \<Rightarrow> string \<Rightarrow> path"

subsection \<open>The convert job\<close>

record convert_job =
  job_repository :: string
  job_commit :: string
  job_root :: string
  job_filename :: path

text \<open>
  What the collaborators of one run of the job do: the importer, whether the cross-repo
  transaction, the rename or the commit discovery fails (and with which error), and the
  value \<^verbatim>\<open>uuid.v4()\<close> returns.
\<close>

record 'x job_environment =
  importer :: "string option \<Rightarrow> 'x import_result"
  xrepo_fault :: "error option"
  rename_fault :: "error option"
  discover_fault :: "error option"
  temp_uuid :: string

record worker_state =
  disk :: file_system
  xrepo :: xrepo_database

definition temp_file :: "process_env \<Rightarrow> 'x job_environment \<Rightarrow> path" where
  "temp_file penv env = path_join [STORAGE_ROOT penv, ''tmp'', temp_uuid env]"

text \<open>\<^verbatim>\<open>fs.rename\<close>, which may also fail for a reason outside the model of the file system.\<close>

definition rename_or_fault :: "error option \<Rightarrow> file_system \<Rightarrow> path \<Rightarrow> path \<Rightarrow> error + file_system" where
  "rename_or_fault fault fs old new = (case fault of Some e \<Rightarrow> Inl e | None \<Rightarrow> fs_rename fs old new)"

text \<open>
  The \<^verbatim>\<open>catch\<close> block: unlink the temp file, then rethrow. \<open>seen\<close> are the states the
  run has gone through; a state is added when the unlink succeeds.
\<close>

definition unlink_and_rethrow ::
  "path \<Rightarrow> error \<Rightarrow> worker_state list \<Rightarrow> worker_state \<Rightarrow> (error + unit) \<times> worker_state list" where
  "unlink_and_rethrow tempFile e seen st =
     (case fs_unlink (disk st) tempFile of
        Inl e' \<Rightarrow> (Inl e', seen)
      | Inr d \<Rightarrow> (Inl e, seen @ [st\<lparr>disk := d\<rparr>]))"

text \<open>
  The job processor. It returns the outcome of the job and the states of the file system
  and the cross-repo database in the order the run produced them, the initial state first:
  another process reading between two steps sees one of them. The last is the final state.
\<close>

definition createConvertJobProcessor ::
  "process_env \<Rightarrow> util_functions \<Rightarrow> 'x job_environment \<Rightarrow> convert_job \<Rightarrow> worker_state
     \<Rightarrow> (error + unit) \<times> worker_state list" where
  "createConvertJobProcessor penv util env args st =
     (let tempFile = temp_file penv env
      in case convertLsif (importer env) (disk st) (job_filename args) tempFile of
           (converted, disk1) \<Rightarrow>
        (let st1 = st\<lparr>disk := disk1\<rparr>
         in case converted of
              Inl e \<Rightarrow> unlink_and_rethrow tempFile e [st, st1] st1
            | Inr packages_references \<Rightarrow>
           (case addPackagesAndReferences (xrepo_fault env) (xrepo st1)
                   (job_repository args) (job_commit args) (job_root args) packages_references of
              (Inl e, db) \<Rightarrow> unlink_and_rethrow tempFile e [st, st1] st1
            | (Inr dump, db) \<Rightarrow>
           (let st2 = st1\<lparr>xrepo := db\<rparr>
            in case rename_or_fault (rename_fault env) (disk st2) tempFile
                      (dbFilename util (STORAGE_ROOT penv) (dump_id dump)
                         (job_repository args) (job_commit args)) of
                 Inl e \<Rightarrow> unlink_and_rethrow tempFile e [st, st1, st2] st2
               | Inr disk3 \<Rightarrow>
              (let st3 = st2\<lparr>disk := disk3\<rparr>
               in case discover_fault env of
                    Some e \<Rightarrow> (Inl e, [st, st1, st2, st3])
                  | None \<Rightarrow>
                 (case fs_unlink (disk st3) (job_filename args) of
                    Inl e \<Rightarrow> (Inl e, [st, st1, st2, st3])
                  | Inr disk4 \<Rightarrow> (Inr (), [st, st1, st2, st3, st3\<lparr>disk := disk4\<rparr>])))))))"

definition final_state :: "(error + unit) \<times> worker_state list \<Rightarrow> worker_state" where
  "final_state run = last (snd run)"

text \<open>The dump the job registers, and the file the job renames the temp file to.\<close>

definition registered_dump :: "convert_job \<Rightarrow> worker_state \<Rightarrow> lsif_dump" where
  "registered_dump args st =
     \<lparr>dump_id = next_dump_id (xrepo st), dump_repository = job_repository args,
      dump_commit = job_commit args, dump_root = job_root args\<rparr>"

definition dump_file :: "process_env \<Rightarrow> util_functions \<Rightarrow> convert_job \<Rightarrow> worker_state \<Rightarrow> path" where
  "dump_file penv util args st =
     dbFilename util (STORAGE_ROOT penv) (next_dump_id (xrepo st)) (job_repository args) (job_commit args)"

text \<open>
  Which of the three steps inside the \<^verbatim>\<open>try\<close> block fails, and with which error; and
  whether the temp file is there when the \<^verbatim>\<open>catch\<close> block runs.
\<close>

definition conversion_fails :: "'x job_environment \<Rightarrow> convert_job \<Rightarrow> worker_state \<Rightarrow> error \<Rightarrow> bool" where
  "conversion_fails env args st e =
     (\<exists>left. importer env (disk st (job_filename args)) = Aborted e left)"

definition converted :: "'x job_environment \<Rightarrow> convert_job \<Rightarrow> worker_state \<Rightarrow> bool" where
  "converted env args st =
     (case importer env (disk st (job_filename args)) of Imported x database \<Rightarrow> True | Aborted e left \<Rightarrow> False)"

definition registration_fails :: "'x job_environment \<Rightarrow> convert_job \<Rightarrow> worker_state \<Rightarrow> error \<Rightarrow> bool" where
  "registration_fails env args st e = (converted env args st \<and> xrepo_fault env = Some e)"

definition rename_fails :: "'x job_environment \<Rightarrow> convert_job \<Rightarrow> worker_state \<Rightarrow> error \<Rightarrow> bool" where
  "rename_fails env args st e =
     (converted env args st \<and> xrepo_fault env = None \<and> rename_fault env = Some e)"

definition temp_file_left :: "process_env \<Rightarrow> 'x job_environment \<Rightarrow> convert_job \<Rightarrow> worker_state \<Rightarrow> bool" where
  "temp_file_left penv env args st =
     (case importer env (disk st (job_filename args)) of
        Imported x database \<Rightarrow> True
      | Aborted e left \<Rightarrow> left \<noteq> None \<or> disk st (temp_file penv env) \<noteq> None)"

subsection \<open>The filename migration\<close>

definition old_file :: "util_functions \<Rightarrow> path \<Rightarrow> lsif_dump \<Rightarrow> path" where
  "old_file util root dump = dbFilenameOld util root (dump_repository dump) (dump_commit dump)"

definition new_file :: "util_functions \<Rightarrow> path \<Rightarrow> lsif_dump \<Rightarrow> path" where
  "new_file util root dump =
     dbFilename util root (dump_id dump) (dump_repository dump) (dump_commit dump)"

text \<open>
  The loop of \<^verbatim>\<open>ensureFilenamesAreIDs\<close> over the dumps of the database. Beside the file
  system it returns the renames it has performed, in order.
\<close>

fun rename_old_files ::
  "util_functions \<Rightarrow> path \<Rightarrow> lsif_dump list \<Rightarrow> file_system
     \<Rightarrow> error + file_system \<times> (path \<times> path) list" where
  "rename_old_files util root [] fs = Inr (fs, [])"
| "rename_old_files util root (dump # dumps) fs =
     (let oldFile = old_file util root dump;
          newFile = new_file util root dump
      in if \<not> fs_exists fs oldFile then rename_old_files util root dumps fs
         else (case fs_rename fs oldFile newFile of
                 Inl e \<Rightarrow> Inl e
               | Inr fs' \<Rightarrow>
                   (case rename_old_files util root dumps fs' of
                      Inl e \<Rightarrow> Inl e
                    | Inr (fs'', renames) \<Rightarrow> Inr (fs'', (oldFile, newFile) # renames))))"

definition done_file :: "process_env \<Rightarrow> path" where
  "done_file penv = path_join [STORAGE_ROOT penv, ''id-based-filenames'']"

definition ensureFilenamesAreIDs ::
  "process_env \<Rightarrow> util_functions \<Rightarrow> xrepo_database \<Rightarrow> file_system
     \<Rightarrow> error + file_system \<times> (path \<times> path) list" where
  "ensureFilenamesAreIDs penv util db fs =
     (let doneFile = done_file penv
      in if fs_exists fs doneFile then Inr (fs, [])
         else (case rename_old_files util (STORAGE_ROOT penv) (lsif_dumps db) fs of
                 Inl e \<Rightarrow> Inl e
               | Inr (fs', renames) \<Rightarrow> Inr (fs_touch fs' doneFile, renames)))"

subsection \<open>Vocabulary of the statements\<close>

text \<open>A string of exactly forty lower-case hexadecimal characters.\<close>

definition commit_hash :: "query_value \<Rightarrow> bool" where
  "commit_hash v = (case v of Str s \<Rightarrow> length s = 40 \<and> set s \<subseteq> set ''0123456789abcdef'' | _ \<Rightarrow> False)"

definition is_string :: "query_value \<Rightarrow> bool" where
  "is_string v = (case v of Str s \<Rightarrow> True | _ \<Rightarrow> False)"

text \<open>The outcome is a thrown error that carries status 400.\<close>

definition raises_400 :: "error + 'a \<Rightarrow> bool" where
  "raises_400 r = (case r of Inl e \<Rightarrow> status e = Some 400 | Inr x \<Rightarrow> False)"

definition sample_commit :: string where
  "sample_commit = ''0123456789abcdef0123456789abcdef01234567''"

definition upper_case_commit :: string where
  "upper_case_commit = ''0123456789ABCDEF0123456789ABCDEF01234567''"

definition sample_query :: "string \<rightharpoonup> query_value" where
  "sample_query = [''repository'' \<mapsto> Str ''github.com/user/repo'', ''commit'' \<mapsto> Str sample_commit]"

subsection \<open>Sample inputs\<close>

text \<open>
  A stand-in for the functions of \<^verbatim>\<open>./input\<close>, for evaluating the handlers on concrete
  requests: one body is refused as not being gzip data, every other body is a single valid
  element.
\<close>

definition sample_input :: "string input_functions" where
  "sample_input =
     \<lparr>readGzippedJsonElements =
        (\<lambda>b. if b = ''not gzip'' then Inl \<lparr>status = None, message = Some ''incorrect header check''\<rparr>
             else Inr [b]),
      validateLsifElements = Inr,
      stringifyJsonLines = concat,
      createGzip = (\<lambda>s. s),
      interrupted_output = (\<lambda>b. [])\<rparr>"

definition empty_server :: server_state where
  "empty_server = \<lparr>files = Map.empty, queue = \<lparr>jobs = []\<rparr>, server_log = []\<rparr>"

definition bad_commit_query :: "string \<rightharpoonup> query_value" where
  "bad_commit_query = [''repository'' \<mapsto> Str ''github.com/user/repo'', ''commit'' \<mapsto> Str ''abc'']"

definition sample_request :: upload_request where
  "sample_request = \<lparr>query = sample_query, body = ''lsif lines''\<rparr>"

definition malformed_request :: upload_request where
  "malformed_request = \<lparr>query = sample_query, body = ''not gzip''\<rparr>"

definition skipped_malformed_request :: upload_request where
  "skipped_malformed_request =
     \<lparr>query = sample_query(''skipValidation'' \<mapsto> Str ''true''), body = ''not gzip''\<rparr>"

definition bad_commit_malformed_request :: upload_request where
  "bad_commit_malformed_request = \<lparr>query = bad_commit_query, body = ''not gzip''\<rparr>"

definition bad_commit_skipped_request :: upload_request where
  "bad_commit_skipped_request =
     \<lparr>query = bad_commit_query(''skipValidation'' \<mapsto> Str ''true''), body = ''not gzip''\<rparr>"

text \<open>Decimal digits of a number, for file names.\<close>

fun decimal :: "nat \<Rightarrow> string" where
  "decimal n = (if n < 10 then [''0123456789'' ! n] else decimal (n div 10) @ [''0123456789'' ! (n mod 10)])"

declare decimal.simps [simp del]

text \<open>
  Modelled from the spec: a stand-in for \<^verbatim>\<open>dbFilename\<close> and \<^verbatim>\<open>dbFilenameOld\<close> of
  \<^verbatim>\<open>./util\<close>, after the layout of the storage root: \<^verbatim>\<open><dump-id>.lsif.db\<close> for a dump
  file, \<^verbatim>\<open><repo>@<commit>.lsif.db\<close> in the prior scheme.
\<close>

definition sample_util :: util_functions where
  "sample_util =
     \<lparr>dbFilename = (\<lambda>root id repository commit. path_join [root, decimal id @ ''.lsif.db'']),
      dbFilenameOld = (\<lambda>root repository commit. path_join [root, repository @ ''@'' @ commit @ ''.lsif.db''])\<rparr>"

definition sample_job :: convert_job where
  "sample_job =
     \<lparr>job_repository = ''test'', job_commit = sample_commit, job_root = [],
      job_filename = ''lsif-storage/uploads/u1''\<rparr>"

definition sample_worker :: worker_state where
  "sample_worker =
     \<lparr>disk = [''lsif-storage/uploads/u1'' \<mapsto> ''lsif lines''],
      xrepo = \<lparr>lsif_dumps = [], next_dump_id = 1\<rparr>\<rparr>"

definition missing_upload :: error where
  "missing_upload = \<lparr>status = None, message = Some ''ENOENT: no such file or directory, open''\<rparr>"

definition sample_importer :: "string option \<Rightarrow> unit import_result" where
  "sample_importer content =
     (case content of
        None \<Rightarrow> Aborted missing_upload None
      | Some lines \<Rightarrow> Imported () ''sqlite'')"

definition cross_device :: error where
  "cross_device = \<lparr>status = None, message = Some ''EXDEV: cross-device link not permitted''\<rparr>"

definition healthy_environment :: "unit job_environment" where
  "healthy_environment =
     \<lparr>importer = sample_importer, xrepo_fault = None, rename_fault = None,
      discover_fault = None, temp_uuid = ''t1''\<rparr>"

definition failing_rename_environment :: "unit job_environment" where
  "failing_rename_environment =
     \<lparr>importer = sample_importer, xrepo_fault = None, rename_fault = Some cross_device,
      discover_fault = None, temp_uuid = ''t1''\<rparr>"

definition malformed_input :: error where
  "malformed_input = \<lparr>status = None, message = Some ''MalformedInput''\<rparr>"

definition aborting_environment :: "unit job_environment" where
  "aborting_environment =
     \<lparr>importer = (\<lambda>content. Aborted malformed_input None), xrepo_fault = None,
      rename_fault = None, discover_fault = None, temp_uuid = ''t1''\<rparr>"

definition shadowing_commit :: query_value where
  "shadowing_commit = Obj [(''toString'', Str ''x'')]"

definition old_scheme_database :: xrepo_database where
  "old_scheme_database =
     \<lparr>lsif_dumps =
        [\<lparr>dump_id = 1, dump_repository = ''a'', dump_commit = ''c1'', dump_root = []\<rparr>,
         \<lparr>dump_id = 2, dump_repository = ''b'', dump_commit = ''c2'', dump_root = []\<rparr>],
      next_dump_id = 3\<rparr>"

definition old_scheme_storage :: file_system where
  "old_scheme_storage =
     [''lsif-storage/a@c1.lsif.db'' \<mapsto> ''one'', ''lsif-storage/b@c2.lsif.db'' \<mapsto> ''two'']"

section \<open>Properties\<close>

subsection \<open>Parameter checks\<close>

lemma checkRepository_raises: "raises_400 (checkRepository v) = (\<not> is_string v)"
  by (cases v) (simp_all add: checkRepository_def raises_400_def is_string_def new_Error_def)

lemma checkRepository_passes: "is_string v \<Longrightarrow> checkRepository v = Inr ()"
  by (cases v) (simp_all add: checkRepository_def is_string_def)

lemma checkRepository_outcome: "(checkRepository v = Inr ()) = (\<not> raises_400 (checkRepository v))"
  by (simp add: checkRepository_def raises_400_def new_Error_def)

lemma hex_regex_test_set: "hex_regex_test s = (s \<noteq> [] \<and> set s \<subseteq> set ''0123456789abcdef'')"
  unfolding hex_regex_test_def lower_hex_def list_all_iff by blast

lemma checkCommit_passes: "commit_hash v \<Longrightarrow> checkCommit v = Inr ()"
proof (cases v)
  case (Str s)
  assume "commit_hash v"
  with Str have "length s = 40" "set s \<subseteq> set ''0123456789abcdef''"
    by (simp_all add: commit_hash_def)
  moreover from this have "s \<noteq> []" by auto
  ultimately show ?thesis
    unfolding Str checkCommit_def hex_regex_test_set by simp
qed (simp_all add: commit_hash_def)

lemma checkCommit_refuses:
  assumes "\<not> commit_hash v"
  shows "checkCommit v = (case js_String v of
           None \<Rightarrow> Inl TypeError
         | Some shown \<Rightarrow> Inl (new_Error (''Must specify the commit as a 40 character hash '' @ shown) 400))"
proof (cases v)
  case (Str s)
  with assms show ?thesis
    unfolding checkCommit_def commit_hash_def hex_regex_test_set by auto
qed (simp_all add: checkCommit_def)

lemma checkCommit_raises:
  assumes "js_String v \<noteq> None"
  shows "raises_400 (checkCommit v) = (\<not> commit_hash v)"
proof (cases "commit_hash v")
  case True
  then show ?thesis by (simp add: checkCommit_passes raises_400_def)
next
  case False
  with assms show ?thesis
    by (auto simp: checkCommit_refuses raises_400_def new_Error_def)
qed

lemma checkCommit_outcome:
  assumes "js_String v \<noteq> None"
  shows "(checkCommit v = Inr ()) = (\<not> raises_400 (checkCommit v))"
proof (cases "commit_hash v")
  case True
  then show ?thesis by (simp add: checkCommit_passes raises_400_def)
next
  case False
  with assms show ?thesis
    by (auto simp: checkCommit_refuses raises_400_def new_Error_def)
qed

lemma checkFile_raises:
  assumes "js_String v \<noteq> None"
  shows "raises_400 (checkFile v) = (\<not> is_string v)"
proof -
  from assms obtain shown where "js_String v = Some shown" by auto
  then show ?thesis
    by (cases v) (simp_all add: checkFile_def raises_400_def is_string_def new_Error_def
        del: js_String.simps)
qed

lemma checkMethod_not_400: "\<not> raises_400 (checkMethod m ms)"
  by (simp add: checkMethod_def raises_400_def new_Error_def)

lemma raises_400_and_then:
  "raises_400 (and_then r f) = (raises_400 r \<or> (\<exists>x. r = Inr x \<and> raises_400 (f x)))"
  by (cases r) (simp_all add: and_then_def raises_400_def)

text \<open>
  Claim C5, as amended. Take a request whose commit parameter can be shown in an error
  message (every value but an object that carries an own \<^verbatim>\<open>toString\<close> entry, or an array
  that holds one). The checks of \<^verbatim>\<open>/upload\<close> and of \<^verbatim>\<open>/request\<close> raise an error of
  status 400 exactly when the repository parameter is not a string or the commit
  parameter is not a string of exactly forty lower-case hexadecimal characters; the
  checks of \<^verbatim>\<open>/exists\<close>, when the file parameter can be shown too, raise one exactly then
  or when the file parameter is not a string; a string repository and a forty-character
  lower-case hexadecimal commit pass \<open>checkRepository\<close> and \<open>checkCommit\<close> without error.
\<close>

theorem parameter_checks_raise_400:
  assumes "js_String (query_param q ''commit'') \<noteq> None"
  shows "raises_400 (upload_checks q) =
     (\<not> is_string (query_param q ''repository'') \<or> \<not> commit_hash (query_param q ''commit''))
   \<and> raises_400 (request_checks q method) =
     (\<not> is_string (query_param q ''repository'') \<or> \<not> commit_hash (query_param q ''commit''))
   \<and> (js_String (query_param q ''file'') \<noteq> None \<longrightarrow>
       raises_400 (exists_checks q) =
         (\<not> is_string (query_param q ''repository'') \<or> \<not> commit_hash (query_param q ''commit'')
          \<or> \<not> is_string (query_param q ''file'')))
   \<and> (is_string repository \<and> commit_hash commit \<longrightarrow>
        checkRepository repository = Inr () \<and> checkCommit commit = Inr ())"
proof (intro conjI impI)
  note commit = checkCommit_raises [OF assms] checkCommit_outcome [OF assms]
  show "raises_400 (upload_checks q) =
     (\<not> is_string (query_param q ''repository'') \<or> \<not> commit_hash (query_param q ''commit''))"
    unfolding upload_checks_def raises_400_and_then
    by (simp add: checkRepository_raises commit checkRepository_outcome)
  show "raises_400 (request_checks q method) =
     (\<not> is_string (query_param q ''repository'') \<or> \<not> commit_hash (query_param q ''commit''))"
    unfolding request_checks_def raises_400_and_then
    by (simp add: checkRepository_raises commit checkRepository_outcome checkMethod_not_400)
  show "raises_400 (exists_checks q) =
     (\<not> is_string (query_param q ''repository'') \<or> \<not> commit_hash (query_param q ''commit'')
      \<or> \<not> is_string (query_param q ''file''))"
    if "js_String (query_param q ''file'') \<noteq> None"
    unfolding exists_checks_def raises_400_and_then
    by (auto simp: checkRepository_raises commit checkFile_raises [OF that] checkRepository_outcome)
next
  assume "is_string repository \<and> commit_hash commit"
  then show "checkRepository repository = Inr ()" "checkCommit commit = Inr ()"
    by (simp_all add: checkRepository_passes checkCommit_passes)
qed

lemma sample_commit_hash: "commit_hash (Str sample_commit)"
  by (simp add: commit_hash_def sample_commit_def)

text \<open>
  The amended statement at a request of \<^verbatim>\<open>/upload\<close> with a string repository and a
  well-formed commit: no error of status 400, and both checks return.
\<close>

theorem parameter_checks_raise_400_witness:
  "\<not> raises_400 (upload_checks sample_query)
   \<and> checkRepository (Str ''github.com/user/repo'') = Inr ()
   \<and> checkCommit (Str sample_commit) = Inr ()"
proof -
  have shown: "js_String (query_param sample_query ''commit'') \<noteq> None"
    by (simp add: sample_query_def query_param_def)
  show ?thesis
    using parameter_checks_raise_400 [OF shown, of Undefined "Str ''github.com/user/repo''" "Str sample_commit"]
      sample_commit_hash
    by (simp add: sample_query_def query_param_def is_string_def)
qed

text \<open>
  Claim C5 as stated fails twice. A request of \<^verbatim>\<open>/exists\<close> whose repository is a
  string and whose commit is forty hexadecimal characters, but which carries no file
  parameter, raises status 400 (the same parameters pass on \<^verbatim>\<open>/upload\<close>); and a commit
  of forty upper-case hexadecimal characters is refused with status 400.
\<close>

theorem parameter_checks_counterexample:
  "raises_400 (exists_checks sample_query)
   \<and> upload_checks sample_query = Inr ()
   \<and> length upper_case_commit = 40
   \<and> set upper_case_commit \<subseteq> set ''0123456789abcdefABCDEF''
   \<and> raises_400 (checkCommit (Str upper_case_commit))"
  by (simp add: exists_checks_def upload_checks_def and_then_def sample_query_def query_param_def
      checkRepository_def checkCommit_def checkFile_def raises_400_def new_Error_def
      hex_regex_test_def lower_hex_def sample_commit_def upper_case_commit_def)

text \<open>
  A commit that cannot be shown: the template literal of the message throws, and the error
  of the check is a \<^verbatim>\<open>TypeError\<close> without status.
\<close>

lemma checkCommit_shadowed_toString: "checkCommit shadowing_commit = Inl TypeError"
  by (simp add: checkCommit_def shadowing_commit_def)

subsection \<open>The error handler\<close>

text \<open>
  Claim C8, as amended. Take an error whose status field is absent, zero or an HTTP error
  status, from 400 to 599. When the response headers have not been sent, the response
  status is the error's status field when that field is present and not zero, and 500
  otherwise; the response message is the error's message when it is present and not
  empty, and \<^verbatim>\<open>Unknown error\<close> otherwise; the error is logged as an uncaught exception
  exactly when it is null, or its status field is absent or zero.
\<close>

theorem errorHandler_response:
  assumes "\<not> headersSent res"
    and "case error_status error of None \<Rightarrow> True | Some n \<Rightarrow> n = 0 \<or> (400 \<le> n \<and> n \<le> 599)"
  shows "snd (errorHandler logger error res) =
           Inr (res\<lparr>headersSent := True,
                   statusCode := (case error_status error of
                                    None \<Rightarrow> 500 | Some n \<Rightarrow> if n = 0 then 500 else n),
                   sent := Some (MessageJson (case error_message error of
                                                None \<Rightarrow> ''Unknown error''
                                              | Some m \<Rightarrow> if m = [] then ''Unknown error'' else m))\<rparr>)
         \<and> fst (errorHandler logger error res) =
           (if error_status error = None \<or> error_status error = Some 0
            then logger @ [ErrorLog ''uncaught exception'' error]
            else logger)"
proof -
  have s: "number_or (error_status error) 500 =
      (case error_status error of None \<Rightarrow> 500 | Some n \<Rightarrow> if n = 0 then 500 else n)"
    by (cases "error_status error") simp_all
  have r: "400 \<le> number_or (error_status error) 500" "number_or (error_status error) 500 \<le> 599"
    using assms(2) by (cases "error_status error"; auto)+
  have m: "string_or (error_message error) ''Unknown error'' =
      (case error_message error of None \<Rightarrow> ''Unknown error''
       | Some m \<Rightarrow> if m = [] then ''Unknown error'' else m)"
    by (cases "error_message error") simp_all
  have l: "(error = None \<or> falsy_number (error_status error)) =
      (error_status error = None \<or> error_status error = Some 0)"
    by (cases error; cases "error_status error") (simp_all add: error_status_def)
  have "status_send res (number_or (error_status error) 500) payload =
      Inr (res\<lparr>headersSent := True, statusCode := number_or (error_status error) 500,
              sent := Some payload\<rparr>)" for payload
    using r by (simp add: status_send_def)
  then show ?thesis
    using assms(1) unfolding errorHandler_def Let_def l by (simp add: s m)
qed

text \<open>An error of status 422 reaches a response whose headers are not sent.\<close>

theorem errorHandler_response_witness:
  "snd (errorHandler [] (Some (new_Error ''bad payload'' 422)) fresh_response) =
     Inr \<lparr>headersSent = True, statusCode = 422, sent = Some (MessageJson ''bad payload'')\<rparr>
   \<and> fst (errorHandler [] (Some (new_Error ''bad payload'' 422)) fresh_response) = []"
  using errorHandler_response [of fresh_response "Some (new_Error ''bad payload'' 422)" "[]"]
  by (simp add: fresh_response_def error_status_def error_message_def new_Error_def)

text \<open>
  Claim C8 as stated fails for an error whose status field is present and zero and whose
  message is present and empty: the response has status 500 and the message
  \<^verbatim>\<open>Unknown error\<close>, and the error is logged although it carries a status field.
\<close>

theorem errorHandler_counterexample:
  "status \<lparr>status = Some 0, message = Some []\<rparr> = Some 0
   \<and> snd (errorHandler [] (Some \<lparr>status = Some 0, message = Some []\<rparr>) fresh_response)
       = Inr \<lparr>headersSent = True, statusCode = 500, sent = Some (MessageJson ''Unknown error'')\<rparr>
   \<and> fst (errorHandler [] (Some \<lparr>status = Some 0, message = Some []\<rparr>) fresh_response)
       = [ErrorLog ''uncaught exception'' (Some \<lparr>status = Some 0, message = Some []\<rparr>)]"
  by (simp add: errorHandler_def status_send_def fresh_response_def error_status_def error_message_def)

text \<open>
  A status that is no HTTP status: the handler throws, and the response is left to the
  default handler of Express.
\<close>

lemma errorHandler_invalid_status:
  "snd (errorHandler [] (Some \<lparr>status = Some 99, message = Some ''teapot''\<rparr>) fresh_response) = Inl RangeError"
  by (simp add: errorHandler_def status_send_def fresh_response_def error_status_def)

subsection \<open>The upload endpoint\<close>

lemma upload_checks_passed:
  "(upload_checks q = Inr ()) =
     (checkRepository (query_param q ''repository'') = Inr ()
      \<and> checkCommit (query_param q ''commit'') = Inr ())"
  by (cases "checkRepository (query_param q ''repository'')")
     (simp_all add: upload_checks_def and_then_def)

lemma upload_after_checks:
  assumes "upload_checks (query req) = Inr ()"
  shows "upload penv fns uuid req st =
     (case upload_pipeline fns (query_param (query req) ''skipValidation'' = Str ''true'') (body req) of
        Rejected e \<Rightarrow>
          (Rejected (assign_status e 422),
           st\<lparr>files := (files st)(upload_filename penv uuid \<mapsto> interrupted_output fns (body req))\<rparr>)
      | Pending \<Rightarrow>
          (Pending,
           st\<lparr>files := (files st)(upload_filename penv uuid \<mapsto> interrupted_output fns (body req))\<rparr>)
      | Resolved written \<Rightarrow>
          (Resolved (fresh_response\<lparr>headersSent := True,
                  sent := Some (Text (''Upload successful, queued for processing.'' @ [CHR 0x0A]))\<rparr>),
           st\<lparr>files := (files st)(upload_filename penv uuid \<mapsto> written),
              server_log := server_log st @ [DebugLog ''enqueueing convert job''],
              queue := enqueue (queue st) ''convert''
                 (convert_args (query_param (query req) ''repository'')
                    (query_param (query req) ''commit'')
                    (query_param (query req) ''root'') (upload_filename penv uuid))\<rparr>))"
  using assms unfolding upload_checks_passed upload_def Let_def by simp

lemma upload_before_checks:
  assumes "upload_checks (query req) = Inl e"
  shows "upload penv fns uuid req st = (Rejected e, st)"
  using assms unfolding upload_checks_def and_then_def upload_def Let_def
  by (auto split: sum.splits)

lemma upload_accepted_checks:
  assumes "fst (upload penv fns uuid req st) = Resolved res"
  shows "upload_checks (query req) = Inr ()"
proof (cases "upload_checks (query req)")
  case (Inl e)
  with assms show ?thesis by (simp add: upload_before_checks)
qed simp

lemma sample_query_checks: "upload_checks sample_query = Inr ()"
  by (simp add: upload_checks_passed sample_query_def query_param_def checkRepository_def
      checkCommit_passes sample_commit_hash)

lemma sample_skip_query_checks:
  "upload_checks (sample_query(''skipValidation'' \<mapsto> Str ''true'')) = Inr ()"
  by (simp add: upload_checks_passed sample_query_def query_param_def checkRepository_def
      checkCommit_passes sample_commit_hash)

lemma sample_upload_filename: "upload_filename Map.empty ''u1'' = ''lsif-storage/uploads/u1''"
  by (simp add: upload_filename_def path_join_def STORAGE_ROOT_def)

lemma post_upload_status_400:
  assumes "upload penv fns uuid req st = (Rejected e, st')" and "status e = Some 400"
  shows "post_upload penv fns uuid req st =
     (Answered (fresh_response\<lparr>headersSent := True, statusCode := 400,
         sent := Some (MessageJson (string_or (message e) ''Unknown error''))\<rparr>), st')"
  using assms
  by (simp add: post_upload_def errorHandler_def status_send_def fresh_response_def
      error_status_def error_message_def)

text \<open>
  Claim C4, as amended. For every request of \<^verbatim>\<open>POST /upload\<close> with validation enabled
  whose repository and commit pass the parameter checks, a body that parses and validates
  as a gzipped stream of LSIF JSON lines is persisted (re-encoded) under
  \<^verbatim>\<open>uploads/<uuid>\<close>, a convert job is enqueued, and the response has status 200.
\<close>

theorem upload_validated_body:
  assumes "upload_checks (query req) = Inr ()"
    and "query_param (query req) ''skipValidation'' \<noteq> Str ''true''"
    and "validated_stream fns (body req) = Inr written"
  shows "answered_status (fst (post_upload penv fns uuid req st)) = Some 200
    \<and> files (snd (post_upload penv fns uuid req st)) (upload_filename penv uuid) = Some written
    \<and> jobs (queue (snd (post_upload penv fns uuid req st))) =
        jobs (queue st) @
        [\<lparr>job_name = ''convert'',
          job_args = convert_args (query_param (query req) ''repository'')
             (query_param (query req) ''commit'') (query_param (query req) ''root'')
             (upload_filename penv uuid)\<rparr>]"
  using assms
  by (simp add: post_upload_def upload_after_checks upload_pipeline_def fresh_response_def
      enqueue_def)

text \<open>A request with well-formed parameters and a body that validates.\<close>

theorem upload_validated_body_witness:
  "answered_status (fst (post_upload Map.empty sample_input ''u1'' sample_request empty_server)) = Some 200
   \<and> files (snd (post_upload Map.empty sample_input ''u1'' sample_request empty_server))
        ''lsif-storage/uploads/u1'' = Some ''lsif lines''
   \<and> map job_name (jobs (queue (snd (post_upload Map.empty sample_input ''u1'' sample_request empty_server))))
        = [''convert'']"
proof -
  have c: "upload_checks (query sample_request) = Inr ()"
    by (simp add: sample_request_def sample_query_checks)
  have s: "query_param (query sample_request) ''skipValidation'' \<noteq> Str ''true''"
    by (simp add: sample_request_def sample_query_def query_param_def)
  have v: "validated_stream sample_input (body sample_request) = Inr ''lsif lines''"
    by (simp add: validated_stream_def sample_input_def sample_request_def)
  show ?thesis
    using upload_validated_body [OF c s v, of Map.empty "''u1''" empty_server]
    by (simp add: sample_upload_filename empty_server_def)
qed

text \<open>
  Claim C4 as stated fails for a request whose commit is not a commit hash: validation is
  enabled and the body does not parse, yet the response has status 400, not 422, since the
  parameter checks run first.
\<close>

theorem upload_validation_counterexample:
  "query_param (query bad_commit_malformed_request) ''skipValidation'' \<noteq> Str ''true''
   \<and> isl (validated_stream sample_input (body bad_commit_malformed_request))
   \<and> answered_status (fst (post_upload Map.empty sample_input ''u1'' bad_commit_malformed_request empty_server))
       = Some 400"
  by (simp add: bad_commit_malformed_request_def bad_commit_query_def query_param_def
      validated_stream_def sample_input_def post_upload_def upload_def Let_def
      checkRepository_def checkCommit_def new_Error_def errorHandler_def status_send_def
      fresh_response_def error_status_def)

text \<open>
  With validation enabled and parameters that pass the checks, a body that fails to parse
  or validate gets no response from the handler: the promise it awaits never settles, so
  the \<^verbatim>\<open>catch\<close> block that sets status 422 is not reached. Nothing is enqueued, and the
  file the handler has opened under \<^verbatim>\<open>uploads/\<close> stays.
\<close>

lemma upload_validation_unanswered:
  assumes "upload_checks (query req) = Inr ()"
    and "query_param (query req) ''skipValidation'' \<noteq> Str ''true''"
    and "validated_stream fns (body req) = Inl e"
  shows "fst (post_upload penv fns uuid req st) = Unanswered
    \<and> jobs (queue (snd (post_upload penv fns uuid req st))) = jobs (queue st)
    \<and> files (snd (post_upload penv fns uuid req st)) (upload_filename penv uuid)
        = Some (interrupted_output fns (body req))"
  using assms
  by (simp add: post_upload_def upload_after_checks upload_pipeline_def)

lemma malformed_upload_unanswered:
  "fst (post_upload Map.empty sample_input ''u1'' malformed_request empty_server) = Unanswered"
proof -
  have c: "upload_checks (query malformed_request) = Inr ()"
    by (simp add: malformed_request_def sample_query_checks)
  have s: "query_param (query malformed_request) ''skipValidation'' \<noteq> Str ''true''"
    by (simp add: malformed_request_def sample_query_def query_param_def)
  have v: "validated_stream sample_input (body malformed_request) =
      Inl \<lparr>status = None, message = Some ''incorrect header check''\<rparr>"
    by (simp add: validated_stream_def sample_input_def malformed_request_def)
  from upload_validation_unanswered [OF c s v] show ?thesis by simp
qed

text \<open>
  Claim C9, as amended. When \<^verbatim>\<open>POST /upload\<close> is called with
  \<^verbatim>\<open>skipValidation=true\<close> and the repository and commit pass the parameter checks, the
  raw request body is written byte for byte to \<^verbatim>\<open>uploads/<uuid>\<close>, whatever the parsing
  and validation functions would say of it, a convert job is enqueued, and the response
  has status 200.
\<close>

theorem upload_skip_validation:
  assumes "upload_checks (query req) = Inr ()"
    and "query_param (query req) ''skipValidation'' = Str ''true''"
  shows "answered_status (fst (post_upload penv fns uuid req st)) = Some 200
    \<and> files (snd (post_upload penv fns uuid req st)) (upload_filename penv uuid) = Some (body req)
    \<and> jobs (queue (snd (post_upload penv fns uuid req st))) =
        jobs (queue st) @
        [\<lparr>job_name = ''convert'',
          job_args = convert_args (query_param (query req) ''repository'')
             (query_param (query req) ''commit'') (query_param (query req) ''root'')
             (upload_filename penv uuid)\<rparr>]"
  using assms
  by (simp add: post_upload_def upload_after_checks upload_pipeline_def fresh_response_def
      enqueue_def)

text \<open>A payload that validation would refuse is stored as it is and queued.\<close>

theorem upload_skip_validation_witness:
  "isl (validated_stream sample_input (body skipped_malformed_request))
   \<and> answered_status (fst (post_upload Map.empty sample_input ''u1'' skipped_malformed_request empty_server))
       = Some 200
   \<and> files (snd (post_upload Map.empty sample_input ''u1'' skipped_malformed_request empty_server))
        ''lsif-storage/uploads/u1'' = Some ''not gzip''
   \<and> map job_name (jobs (queue (snd (post_upload Map.empty sample_input ''u1'' skipped_malformed_request empty_server))))
        = [''convert'']"
proof -
  have c: "upload_checks (query skipped_malformed_request) = Inr ()"
    by (simp add: skipped_malformed_request_def sample_skip_query_checks)
  have s: "query_param (query skipped_malformed_request) ''skipValidation'' = Str ''true''"
    by (simp add: skipped_malformed_request_def query_param_def)
  have m: "isl (validated_stream sample_input (body skipped_malformed_request))"
    by (simp add: validated_stream_def sample_input_def skipped_malformed_request_def)
  show ?thesis
    using upload_skip_validation [OF c s, of Map.empty sample_input "''u1''" empty_server] m
    by (simp add: sample_upload_filename empty_server_def skipped_malformed_request_def)
qed

text \<open>
  Claim C9 as stated fails for a request with \<^verbatim>\<open>skipValidation=true\<close> whose commit is
  not a commit hash: the response has status 400, nothing is written and nothing is
  enqueued.
\<close>

theorem upload_skip_validation_counterexample:
  "query_param (query bad_commit_skipped_request) ''skipValidation'' = Str ''true''
   \<and> answered_status (fst (post_upload Map.empty sample_input ''u1'' bad_commit_skipped_request empty_server))
       = Some 400
   \<and> files (snd (post_upload Map.empty sample_input ''u1'' bad_commit_skipped_request empty_server))
        ''lsif-storage/uploads/u1'' = None
   \<and> jobs (queue (snd (post_upload Map.empty sample_input ''u1'' bad_commit_skipped_request empty_server))) = []"
  by (simp add: bad_commit_skipped_request_def bad_commit_query_def query_param_def
      post_upload_def upload_def Let_def checkRepository_def checkCommit_def new_Error_def
      errorHandler_def status_send_def fresh_response_def error_status_def empty_server_def)

text \<open>
  Claim C10. For every accepted request of \<^verbatim>\<open>POST /upload\<close> whose root query parameter
  is absent or empty, the enqueued convert job receives the empty string as root, and the
  repository, the commit and the name of the spooled file as the handler has them; the
  spooled file exists.
\<close>

theorem upload_job_arguments:
  assumes "fst (upload penv fns uuid req st) = Resolved res"
    and "query_param (query req) ''root'' = Undefined \<or> query_param (query req) ''root'' = Str []"
  shows "jobs (queue (snd (upload penv fns uuid req st))) =
           jobs (queue st) @
           [\<lparr>job_name = ''convert'',
             job_args = [(''repository'', query_param (query req) ''repository''),
                         (''commit'', query_param (query req) ''commit''),
                         (''root'', Str []),
                         (''filename'', Str (upload_filename penv uuid))]\<rparr>]
         \<and> files (snd (upload penv fns uuid req st)) (upload_filename penv uuid) \<noteq> None"
proof -
  have c: "upload_checks (query req) = Inr ()"
    using assms(1) by (rule upload_accepted_checks)
  have r: "convert_args repository commit (query_param (query req) ''root'') filename =
      [(''repository'', repository), (''commit'', commit), (''root'', Str []), (''filename'', Str filename)]"
    for repository commit filename
    using assms(2) by (auto simp: convert_args_def)
  show ?thesis
    using assms(1) unfolding upload_after_checks [OF c]
    by (auto simp: enqueue_def r split: promise.splits)
qed

text \<open>An accepted request that carries no root parameter.\<close>

theorem upload_job_arguments_witness:
  "jobs (queue (snd (upload Map.empty sample_input ''u1'' sample_request empty_server))) =
     [\<lparr>job_name = ''convert'',
       job_args = [(''repository'', Str ''github.com/user/repo''),
                   (''commit'', Str sample_commit),
                   (''root'', Str []),
                   (''filename'', Str ''lsif-storage/uploads/u1'')]\<rparr>]
   \<and> files (snd (upload Map.empty sample_input ''u1'' sample_request empty_server))
        ''lsif-storage/uploads/u1'' \<noteq> None"
proof -
  have c: "upload_checks (query sample_request) = Inr ()"
    by (simp add: sample_request_def sample_query_checks)
  have a: "fst (upload Map.empty sample_input ''u1'' sample_request empty_server) =
      Resolved (fresh_response\<lparr>headersSent := True,
             sent := Some (Text (''Upload successful, queued for processing.'' @ [CHR 0x0A]))\<rparr>)"
    unfolding upload_after_checks [OF c]
    by (simp add: sample_request_def sample_query_def query_param_def validated_stream_def
        sample_input_def upload_pipeline_def)
  have r: "query_param (query sample_request) ''root'' = Undefined
      \<or> query_param (query sample_request) ''root'' = Str []"
    by (simp add: sample_request_def sample_query_def query_param_def)
  show ?thesis
    using upload_job_arguments [OF a r]
    by (simp add: sample_upload_filename empty_server_def sample_request_def sample_query_def
        query_param_def)
qed

text \<open>
  A request that fails the parameter checks with status 400 is answered with that status
  and has no effect: no file is created, nothing is enqueued and nothing is logged.
\<close>

lemma upload_rejected_parameters:
  assumes "raises_400 (upload_checks (query req))"
  shows "answered_status (fst (post_upload penv fns uuid req st)) = Some 400
    \<and> snd (post_upload penv fns uuid req st) = st"
proof -
  from assms obtain e where e: "upload_checks (query req) = Inl e" "status e = Some 400"
    by (auto simp: raises_400_def split: sum.splits)
  from post_upload_status_400 [OF upload_before_checks [OF e(1), of penv fns uuid st] e(2)]
  show ?thesis by simp
qed

subsection \<open>The convert job\<close>

lemma unlink_and_rethrow_present:
  assumes "disk st tempFile \<noteq> None"
  shows "unlink_and_rethrow tempFile e seen st = (Inl e, seen @ [st\<lparr>disk := (disk st)(tempFile := None)\<rparr>])"
  using assms by (auto simp: unlink_and_rethrow_def fs_unlink_def)

text \<open>
  What the job does when a step of the \<^verbatim>\<open>try\<close> block fails while the temp file is there
  (it always is after a conversion that succeeded): the temp file is unlinked and the job
  fails with the error of the step. The upload is gone when the job succeeds, and on every
  failure of the job it is as it was before the job.
\<close>

lemma convert_job_cleanup:
  assumes "job_filename args \<noteq> temp_file penv env"
    and "job_filename args \<noteq> dump_file penv util args st"
  shows "(temp_file_left penv env args st
            \<and> (conversion_fails env args st e \<or> registration_fails env args st e \<or> rename_fails env args st e)
            \<longrightarrow> fst (createConvertJobProcessor penv util env args st) = Inl e
              \<and> disk (final_state (createConvertJobProcessor penv util env args st)) (temp_file penv env) = None)
       \<and> (fst (createConvertJobProcessor penv util env args st) = Inr ()
            \<longrightarrow> disk (final_state (createConvertJobProcessor penv util env args st)) (job_filename args) = None)
       \<and> (isl (fst (createConvertJobProcessor penv util env args st))
            \<longrightarrow> disk (final_state (createConvertJobProcessor penv util env args st)) (job_filename args)
                = disk st (job_filename args))"
proof (cases "importer env (disk st (job_filename args))")
  case (Imported x database)
  then show ?thesis
    using assms
    unfolding createConvertJobProcessor_def Let_def convertLsif_def conversion_fails_def
      registration_fails_def rename_fails_def converted_def temp_file_left_def final_state_def
      dump_file_def
    by (auto simp: unlink_and_rethrow_present addPackagesAndReferences_def rename_or_fault_def
        fs_rename_def fs_unlink_def Let_def
        split: sum.splits option.splits prod.splits)
next
  case (Aborted e' left)
  show ?thesis
  proof (cases left)
    case None
    with Aborted assms show ?thesis
      unfolding createConvertJobProcessor_def Let_def convertLsif_def conversion_fails_def
        registration_fails_def rename_fails_def converted_def temp_file_left_def final_state_def
      by (auto simp: unlink_and_rethrow_def fs_unlink_def split: option.splits)
  next
    case (Some partial)
    with Aborted assms show ?thesis
      unfolding createConvertJobProcessor_def Let_def convertLsif_def conversion_fails_def
        registration_fails_def rename_fails_def converted_def temp_file_left_def final_state_def
      by (auto simp: unlink_and_rethrow_present)
  qed
qed

lemma sample_names:
  "temp_file Map.empty failing_rename_environment = ''lsif-storage/tmp/t1''"
  "temp_file Map.empty healthy_environment = ''lsif-storage/tmp/t1''"
  "temp_file Map.empty aborting_environment = ''lsif-storage/tmp/t1''"
  "dump_file Map.empty sample_util sample_job sample_worker = ''lsif-storage/1.lsif.db''"
  "job_filename sample_job = ''lsif-storage/uploads/u1''"
  by (simp_all add: temp_file_def dump_file_def path_join_def STORAGE_ROOT_def sample_util_def
      sample_job_def sample_worker_def failing_rename_environment_def healthy_environment_def
      aborting_environment_def decimal.simps)

lemma failing_rename_run:
  "createConvertJobProcessor Map.empty sample_util failing_rename_environment sample_job sample_worker =
     (Inl cross_device,
      [sample_worker,
       sample_worker\<lparr>disk := (disk sample_worker)(''lsif-storage/tmp/t1'' \<mapsto> ''sqlite'')\<rparr>,
       \<lparr>disk = (disk sample_worker)(''lsif-storage/tmp/t1'' \<mapsto> ''sqlite''),
        xrepo = \<lparr>lsif_dumps = [registered_dump sample_job sample_worker], next_dump_id = 2\<rparr>\<rparr>,
       \<lparr>disk = disk sample_worker,
        xrepo = \<lparr>lsif_dumps = [registered_dump sample_job sample_worker], next_dump_id = 2\<rparr>\<rparr>])"
  unfolding createConvertJobProcessor_def Let_def sample_names convertLsif_def
  by (simp add: failing_rename_environment_def sample_importer_def sample_worker_def sample_job_def
      addPackagesAndReferences_def rename_or_fault_def unlink_and_rethrow_def fs_unlink_def
      registered_dump_def Let_def)

lemma healthy_run:
  "createConvertJobProcessor Map.empty sample_util healthy_environment sample_job sample_worker =
     (Inr (),
      [sample_worker,
       sample_worker\<lparr>disk := (disk sample_worker)(''lsif-storage/tmp/t1'' \<mapsto> ''sqlite'')\<rparr>,
       \<lparr>disk = (disk sample_worker)(''lsif-storage/tmp/t1'' \<mapsto> ''sqlite''),
        xrepo = \<lparr>lsif_dumps = [registered_dump sample_job sample_worker], next_dump_id = 2\<rparr>\<rparr>,
       \<lparr>disk = (disk sample_worker)(''lsif-storage/1.lsif.db'' \<mapsto> ''sqlite''),
        xrepo = \<lparr>lsif_dumps = [registered_dump sample_job sample_worker], next_dump_id = 2\<rparr>\<rparr>,
       \<lparr>disk = [''lsif-storage/1.lsif.db'' \<mapsto> ''sqlite''],
        xrepo = \<lparr>lsif_dumps = [registered_dump sample_job sample_worker], next_dump_id = 2\<rparr>\<rparr>])"
  unfolding createConvertJobProcessor_def Let_def sample_names convertLsif_def
  by (simp add: healthy_environment_def sample_importer_def sample_worker_def sample_job_def
      addPackagesAndReferences_def rename_or_fault_def unlink_and_rethrow_def fs_unlink_def fs_rename_def
      registered_dump_def Let_def sample_util_def STORAGE_ROOT_def path_join_def decimal.simps)

text \<open>
  Claim C2, at the input where the code departs from it. The conversion fails with
  \<^verbatim>\<open>MalformedInput\<close> and leaves nothing at the temp path. The \<^verbatim>\<open>catch\<close> block calls
  \<^verbatim>\<open>fs.unlink\<close> on the temp path before it rethrows, the unlink fails for the missing
  file, and the job fails with that error: the error of the conversion is lost. The upload
  is left in place, as the claim says.
\<close>

theorem convert_job_lost_error:
  "conversion_fails aborting_environment sample_job sample_worker malformed_input
   \<and> fst (createConvertJobProcessor Map.empty sample_util aborting_environment sample_job sample_worker)
       = Inl \<lparr>status = None,
              message = Some ''ENOENT: no such file or directory, lsif-storage/tmp/t1''\<rparr>
   \<and> fst (createConvertJobProcessor Map.empty sample_util aborting_environment sample_job sample_worker)
       \<noteq> Inl malformed_input
   \<and> disk (final_state (createConvertJobProcessor Map.empty sample_util aborting_environment sample_job sample_worker))
       ''lsif-storage/uploads/u1'' = Some ''lsif lines''"
  unfolding createConvertJobProcessor_def Let_def sample_names convertLsif_def conversion_fails_def
    final_state_def
  by (simp add: aborting_environment_def sample_worker_def sample_job_def unlink_and_rethrow_def
      fs_unlink_def fs_error_of_def malformed_input_def)

text \<open>
  Claim C1, as amended. A convert job succeeds only after both the dump row is committed
  and the temp database file is renamed to the dump's file under the storage root, so
  after a successful job the row and its file both exist; and in every state of a run, a
  file the job has added other than its temp file is the dump file of a row that is
  committed in that state.
\<close>

theorem convert_job_row_and_file:
  assumes "job_filename args \<noteq> dump_file penv util args st"
  shows "(fst (createConvertJobProcessor penv util env args st) = Inr () \<longrightarrow>
            registered_dump args st \<in> set (lsif_dumps (xrepo (final_state (createConvertJobProcessor penv util env args st))))
            \<and> disk (final_state (createConvertJobProcessor penv util env args st)) (dump_file penv util args st) \<noteq> None)
       \<and> (\<forall>w \<in> set (snd (createConvertJobProcessor penv util env args st)). \<forall>p.
            disk w p \<noteq> None \<and> disk st p = None \<longrightarrow>
              p = temp_file penv env
              \<or> (p = dump_file penv util args st \<and> registered_dump args st \<in> set (lsif_dumps (xrepo w))))"
proof (cases "importer env (disk st (job_filename args))")
  case (Imported x database)
  then show ?thesis
    using assms
    unfolding createConvertJobProcessor_def Let_def convertLsif_def final_state_def dump_file_def
      registered_dump_def
    by (auto simp: unlink_and_rethrow_def addPackagesAndReferences_def rename_or_fault_def
        fs_rename_def fs_unlink_def Let_def
        split: sum.splits option.splits prod.splits if_splits)
next
  case (Aborted e left)
  then show ?thesis
    unfolding createConvertJobProcessor_def Let_def convertLsif_def final_state_def
    by (cases left)
       (auto simp: unlink_and_rethrow_def fs_unlink_def split: sum.splits option.splits if_splits)
qed

text \<open>A run with no failure: the job succeeds, the row is committed and the file is in place.\<close>

theorem convert_job_row_and_file_witness:
  "fst (createConvertJobProcessor Map.empty sample_util healthy_environment sample_job sample_worker) = Inr ()
   \<and> registered_dump sample_job sample_worker \<in> set (lsif_dumps (xrepo (final_state
        (createConvertJobProcessor Map.empty sample_util healthy_environment sample_job sample_worker))))
   \<and> disk (final_state (createConvertJobProcessor Map.empty sample_util healthy_environment sample_job sample_worker))
        ''lsif-storage/1.lsif.db'' = Some ''sqlite''"
proof -
  have n: "job_filename sample_job \<noteq> dump_file Map.empty sample_util sample_job sample_worker"
    by (simp add: sample_names)
  show ?thesis
    using convert_job_row_and_file [OF n, of healthy_environment]
    unfolding healthy_run final_state_def sample_names
    by simp
qed

text \<open>
  Claim C1 as stated fails: the row is committed before the rename and is not removed when
  the rename fails. After a job whose rename fails the cross-repo database holds the row
  of dump 1 and the storage root holds no file for it.
\<close>

theorem convert_job_row_without_file:
  "fst (createConvertJobProcessor Map.empty sample_util failing_rename_environment sample_job sample_worker)
     = Inl cross_device
   \<and> lsif_dumps (xrepo (final_state
        (createConvertJobProcessor Map.empty sample_util failing_rename_environment sample_job sample_worker)))
     = [\<lparr>dump_id = 1, dump_repository = ''test'', dump_commit = sample_commit, dump_root = []\<rparr>]
   \<and> disk (final_state
        (createConvertJobProcessor Map.empty sample_util failing_rename_environment sample_job sample_worker))
        (dbFilename sample_util ''lsif-storage'' 1 ''test'' sample_commit) = None"
  unfolding failing_rename_run final_state_def
  by (simp add: registered_dump_def sample_job_def sample_worker_def
      sample_util_def path_join_def decimal.simps)

subsection \<open>The filename migration\<close>

lemma rename_old_files_returns:
  "\<exists>fs' renames. rename_old_files util root dumps fs = Inr (fs', renames)"
proof (induction dumps arbitrary: fs)
  case Nil
  show ?case by simp
next
  case (Cons dump dumps)
  show ?case
  proof (cases "fs (old_file util root dump)")
    case None
    with Cons.IH [of fs] show ?thesis by (simp add: fs_exists_def)
  next
    case (Some content)
    obtain fs' renames where
      "rename_old_files util root dumps
         ((fs(old_file util root dump := None))(new_file util root dump \<mapsto> content)) = Inr (fs', renames)"
      using Cons.IH by blast
    with Some show ?thesis
      by (simp add: fs_exists_def fs_rename_def Let_def)
  qed
qed

lemma rename_old_files_no_new_paths:
  assumes "rename_old_files util root dumps fs = Inr (fs', renames)" and "fs' p \<noteq> None"
  shows "fs p \<noteq> None \<or> p \<in> new_file util root ` set dumps"
  using assms
proof (induction dumps arbitrary: fs fs' renames)
  case Nil
  then show ?case by simp
next
  case (Cons dump dumps)
  show ?case
  proof (cases "fs (old_file util root dump)")
    case None
    with Cons.prems have "rename_old_files util root dumps fs = Inr (fs', renames)"
      by (simp add: fs_exists_def)
    from Cons.IH [OF this Cons.prems(2)] show ?thesis by auto
  next
    case (Some content)
    let ?fs1 = "(fs(old_file util root dump := None))(new_file util root dump \<mapsto> content)"
    from Some Cons.prems(1) obtain rest where "rename_old_files util root dumps ?fs1 = Inr (fs', rest)"
      by (auto simp: fs_exists_def fs_rename_def Let_def split: sum.splits)
    from Cons.IH [OF this Cons.prems(2)] show ?thesis
      by (auto split: if_splits)
  qed
qed

lemma rename_old_files_keeps:
  assumes "rename_old_files util root dumps fs = Inr (fs', renames)" and "fs p \<noteq> None"
    and "p \<notin> old_file util root ` set dumps"
  shows "fs' p \<noteq> None"
  using assms
proof (induction dumps arbitrary: fs fs' renames)
  case Nil
  then show ?case by simp
next
  case (Cons dump dumps)
  from Cons.prems(3) have p: "p \<noteq> old_file util root dump" "p \<notin> old_file util root ` set dumps"
    by auto
  show ?case
  proof (cases "fs (old_file util root dump)")
    case None
    with Cons.prems have "rename_old_files util root dumps fs = Inr (fs', renames)"
      by (simp add: fs_exists_def)
    from Cons.IH [OF this Cons.prems(2) p(2)] show ?thesis .
  next
    case (Some content)
    let ?fs1 = "(fs(old_file util root dump := None))(new_file util root dump \<mapsto> content)"
    from Some Cons.prems(1) obtain rest where r: "rename_old_files util root dumps ?fs1 = Inr (fs', rest)"
      by (auto simp: fs_exists_def fs_rename_def Let_def split: sum.splits)
    have "?fs1 p \<noteq> None" using Cons.prems(2) p(1) by simp
    from Cons.IH [OF r this p(2)] show ?thesis .
  qed
qed

lemma rename_old_files_removes:
  assumes "rename_old_files util root dumps fs = Inr (fs', renames)"
    and "\<forall>d\<in>set dumps. \<forall>d'\<in>set dumps. new_file util root d \<noteq> old_file util root d'"
    and "d \<in> set dumps"
  shows "fs' (old_file util root d) = None"
  using assms
proof (induction dumps arbitrary: fs fs' renames)
  case Nil
  then show ?case by simp
next
  case (Cons dump dumps)
  from Cons.prems(2) have names: "\<forall>d\<in>set dumps. \<forall>d'\<in>set dumps. new_file util root d \<noteq> old_file util root d'"
    and head: "old_file util root dump \<notin> new_file util root ` set dumps"
      "new_file util root dump \<noteq> old_file util root dump"
    by auto
  obtain fs1 rest where run: "rename_old_files util root dumps fs1 = Inr (fs', rest)"
    and fs1: "fs1 (old_file util root dump) = None"
    proof (cases "fs (old_file util root dump)")
      case None
      with Cons.prems(1) have "rename_old_files util root dumps fs = Inr (fs', renames)"
        by (simp add: fs_exists_def)
      with None that show ?thesis by blast
    next
      case (Some content)
      let ?fs1 = "(fs(old_file util root dump := None))(new_file util root dump \<mapsto> content)"
      from Some Cons.prems(1) obtain rest where "rename_old_files util root dumps ?fs1 = Inr (fs', rest)"
        by (auto simp: fs_exists_def fs_rename_def Let_def split: sum.splits)
      moreover have "?fs1 (old_file util root dump) = None" using head(2) by simp
      ultimately show ?thesis using that by blast
    qed
  show ?case
  proof (cases "d \<in> set dumps")
    case True
    from Cons.IH [OF run names True] show ?thesis .
  next
    case False
    with Cons.prems(3) have "d = dump" by simp
    with rename_old_files_no_new_paths [OF run, of "old_file util root dump"] fs1 head(1)
    show ?thesis by auto
  qed
qed

lemma rename_old_files_moves:
  assumes "rename_old_files util root dumps fs = Inr (fs', renames)"
    and "\<forall>d\<in>set dumps. \<forall>d'\<in>set dumps. new_file util root d \<noteq> old_file util root d'"
    and "d \<in> set dumps" and "fs (old_file util root d) \<noteq> None"
  shows "\<exists>d'\<in>set dumps. old_file util root d' = old_file util root d
           \<and> (old_file util root d, new_file util root d') \<in> set renames
           \<and> fs' (new_file util root d') \<noteq> None"
  using assms
proof (induction dumps arbitrary: fs fs' renames)
  case Nil
  then show ?case by simp
next
  case (Cons dump dumps)
  from Cons.prems(2) have names: "\<forall>d\<in>set dumps. \<forall>d'\<in>set dumps. new_file util root d \<noteq> old_file util root d'"
    and head: "new_file util root dump \<notin> old_file util root ` set dumps"
      "\<forall>d'\<in>set (dump # dumps). new_file util root dump \<noteq> old_file util root d'"
    by auto
  show ?case
  proof (cases "fs (old_file util root dump)")
    case None
    with Cons.prems(1) have run: "rename_old_files util root dumps fs = Inr (fs', renames)"
      by (simp add: fs_exists_def)
    from None Cons.prems(3,4) have "d \<in> set dumps" by auto
    from Cons.IH [OF run names this Cons.prems(4)] show ?thesis by auto
  next
    case (Some content)
    let ?fs1 = "(fs(old_file util root dump := None))(new_file util root dump \<mapsto> content)"
    from Some Cons.prems(1) obtain rest where run: "rename_old_files util root dumps ?fs1 = Inr (fs', rest)"
      and renames: "renames = (old_file util root dump, new_file util root dump) # rest"
      by (auto simp: fs_exists_def fs_rename_def Let_def split: sum.splits)
    show ?thesis
    proof (cases "old_file util root d = old_file util root dump")
      case True
      have "?fs1 (new_file util root dump) \<noteq> None" by simp
      from rename_old_files_keeps [OF run this head(1)] True renames
      show ?thesis by auto
    next
      case False
      with Cons.prems(3) have d: "d \<in> set dumps" by auto
      have "?fs1 (old_file util root d) \<noteq> None"
        using False Cons.prems(3,4) head(2) by auto
      from Cons.IH [OF run names d this] renames show ?thesis by auto
    qed
  qed
qed

lemma ensureFilenamesAreIDs_marked:
  "fs_exists fs (done_file penv) \<Longrightarrow> ensureFilenamesAreIDs penv util db fs = Inr (fs, [])"
  by (simp add: ensureFilenamesAreIDs_def)

lemma ensureFilenamesAreIDs_unmarked:
  assumes "\<not> fs_exists fs (done_file penv)"
  obtains fs1 renames where
    "rename_old_files util (STORAGE_ROOT penv) (lsif_dumps db) fs = Inr (fs1, renames)"
    "ensureFilenamesAreIDs penv util db fs = Inr (fs_touch fs1 (done_file penv), renames)"
proof -
  obtain fs1 renames where
    "rename_old_files util (STORAGE_ROOT penv) (lsif_dumps db) fs = Inr (fs1, renames)"
    using rename_old_files_returns by blast
  with assms that show ?thesis by (simp add: ensureFilenamesAreIDs_def)
qed

text \<open>
  Claim C7. The migration is one-shot and idempotent. When the marker file exists it
  performs no renames and leaves the file system as it is. When it does not, the
  migration returns, the marker exists afterwards, and every old-format file of a dump of
  the database that existed is gone: it was renamed to the id-based name of a dump with
  that old-format name, and that file exists. In both cases a second run, on the file
  system the first has left, performs no renames. The path helpers are parameters: no
  id-based name of a dump is the old-format name of a dump, and no old-format name is the
  marker's.
\<close>

theorem filename_migration:
  assumes "\<forall>d\<in>set (lsif_dumps db). \<forall>d'\<in>set (lsif_dumps db).
             new_file util (STORAGE_ROOT penv) d \<noteq> old_file util (STORAGE_ROOT penv) d'"
    and "\<forall>d\<in>set (lsif_dumps db). old_file util (STORAGE_ROOT penv) d \<noteq> done_file penv"
  shows "(fs_exists fs (done_file penv) \<longrightarrow> ensureFilenamesAreIDs penv util db fs = Inr (fs, []))
    \<and> (\<not> fs_exists fs (done_file penv) \<longrightarrow>
         (\<exists>fs' renames. ensureFilenamesAreIDs penv util db fs = Inr (fs', renames)
            \<and> fs_exists fs' (done_file penv)
            \<and> (\<forall>d\<in>set (lsif_dumps db). fs_exists fs (old_file util (STORAGE_ROOT penv) d) \<longrightarrow>
                  \<not> fs_exists fs' (old_file util (STORAGE_ROOT penv) d)
                  \<and> (\<exists>d'\<in>set (lsif_dumps db).
                        old_file util (STORAGE_ROOT penv) d' = old_file util (STORAGE_ROOT penv) d
                        \<and> (old_file util (STORAGE_ROOT penv) d, new_file util (STORAGE_ROOT penv) d') \<in> set renames
                        \<and> fs_exists fs' (new_file util (STORAGE_ROOT penv) d')))))
    \<and> (\<exists>fs' renames. ensureFilenamesAreIDs penv util db fs = Inr (fs', renames)
          \<and> ensureFilenamesAreIDs penv util db fs' = Inr (fs', []))"
proof (cases "fs_exists fs (done_file penv)")
  case True
  then show ?thesis by (simp add: ensureFilenamesAreIDs_marked)
next
  case False
  then obtain fs1 renames where
    loop: "rename_old_files util (STORAGE_ROOT penv) (lsif_dumps db) fs = Inr (fs1, renames)"
    and run: "ensureFilenamesAreIDs penv util db fs = Inr (fs_touch fs1 (done_file penv), renames)"
    by (rule ensureFilenamesAreIDs_unmarked)
  let ?fs' = "fs_touch fs1 (done_file penv)"
  have marked: "fs_exists ?fs' (done_file penv)"
    by (simp add: fs_exists_def fs_touch_def)
  have moved: "\<not> fs_exists ?fs' (old_file util (STORAGE_ROOT penv) d)
      \<and> (\<exists>d'\<in>set (lsif_dumps db).
            old_file util (STORAGE_ROOT penv) d' = old_file util (STORAGE_ROOT penv) d
            \<and> (old_file util (STORAGE_ROOT penv) d, new_file util (STORAGE_ROOT penv) d') \<in> set renames
            \<and> fs_exists ?fs' (new_file util (STORAGE_ROOT penv) d'))"
    if d: "d \<in> set (lsif_dumps db)" and there: "fs_exists fs (old_file util (STORAGE_ROOT penv) d)" for d
  proof
    from rename_old_files_removes [OF loop assms(1) d] assms(2) d
    show "\<not> fs_exists ?fs' (old_file util (STORAGE_ROOT penv) d)"
      by (simp add: fs_exists_def fs_touch_def)
    from there have "fs (old_file util (STORAGE_ROOT penv) d) \<noteq> None"
      by (simp add: fs_exists_def)
    from rename_old_files_moves [OF loop assms(1) d this]
    show "\<exists>d'\<in>set (lsif_dumps db).
            old_file util (STORAGE_ROOT penv) d' = old_file util (STORAGE_ROOT penv) d
            \<and> (old_file util (STORAGE_ROOT penv) d, new_file util (STORAGE_ROOT penv) d') \<in> set renames
            \<and> fs_exists ?fs' (new_file util (STORAGE_ROOT penv) d')"
      by (auto simp: fs_exists_def fs_touch_def)
  qed
  have again: "ensureFilenamesAreIDs penv util db ?fs' = Inr (?fs', [])"
    using marked by (rule ensureFilenamesAreIDs_marked)
  from False run marked moved again show ?thesis by auto
qed

lemma old_scheme_names:
  "done_file Map.empty = ''lsif-storage/id-based-filenames''"
  "STORAGE_ROOT Map.empty = ''lsif-storage''"
  "map (old_file sample_util ''lsif-storage'') (lsif_dumps old_scheme_database) =
     [''lsif-storage/a@c1.lsif.db'', ''lsif-storage/b@c2.lsif.db'']"
  "map (new_file sample_util ''lsif-storage'') (lsif_dumps old_scheme_database) =
     [''lsif-storage/1.lsif.db'', ''lsif-storage/2.lsif.db'']"
  by (simp_all add: done_file_def STORAGE_ROOT_def path_join_def old_file_def new_file_def
      sample_util_def old_scheme_database_def decimal.simps)

lemma old_scheme_run:
  "ensureFilenamesAreIDs Map.empty sample_util old_scheme_database old_scheme_storage =
     Inr (fs_touch [''lsif-storage/1.lsif.db'' \<mapsto> ''one'', ''lsif-storage/2.lsif.db'' \<mapsto> ''two'']
            ''lsif-storage/id-based-filenames'',
          [(''lsif-storage/a@c1.lsif.db'', ''lsif-storage/1.lsif.db''),
           (''lsif-storage/b@c2.lsif.db'', ''lsif-storage/2.lsif.db'')])"
  using old_scheme_names(3,4)
  unfolding ensureFilenamesAreIDs_def Let_def old_scheme_names(1,2)
  by (simp add: old_scheme_database_def old_scheme_storage_def fs_exists_def fs_rename_def Let_def)

text \<open>
  Two dumps stored under the old scheme and no marker: both files are renamed, the marker
  is created, and a second run renames nothing.
\<close>

theorem filename_migration_witness:
  "\<not> fs_exists old_scheme_storage (done_file Map.empty)
   \<and> (case ensureFilenamesAreIDs Map.empty sample_util old_scheme_database old_scheme_storage of
        Inl e \<Rightarrow> False
      | Inr (fs', renames) \<Rightarrow>
          renames = [(''lsif-storage/a@c1.lsif.db'', ''lsif-storage/1.lsif.db''),
                     (''lsif-storage/b@c2.lsif.db'', ''lsif-storage/2.lsif.db'')]
          \<and> fs' ''lsif-storage/a@c1.lsif.db'' = None
          \<and> fs' ''lsif-storage/b@c2.lsif.db'' = None
          \<and> fs' ''lsif-storage/1.lsif.db'' = Some ''one''
          \<and> fs' ''lsif-storage/2.lsif.db'' = Some ''two''
          \<and> fs_exists fs' (done_file Map.empty)
          \<and> ensureFilenamesAreIDs Map.empty sample_util old_scheme_database fs' = Inr (fs', []))"
proof -
  have names: "\<forall>d\<in>set (lsif_dumps old_scheme_database). \<forall>d'\<in>set (lsif_dumps old_scheme_database).
      new_file sample_util (STORAGE_ROOT Map.empty) d \<noteq> old_file sample_util (STORAGE_ROOT Map.empty) d'"
    using old_scheme_names(3,4) unfolding old_scheme_names(2)
    by (simp add: old_scheme_database_def)
  have marker: "\<forall>d\<in>set (lsif_dumps old_scheme_database).
      old_file sample_util (STORAGE_ROOT Map.empty) d \<noteq> done_file Map.empty"
    using old_scheme_names(3) unfolding old_scheme_names(1,2)
    by (simp add: old_scheme_database_def)
  have unmarked: "\<not> fs_exists old_scheme_storage (done_file Map.empty)"
    unfolding old_scheme_names(1) by (simp add: fs_exists_def old_scheme_storage_def)
  show ?thesis
    using filename_migration [OF names marker, of old_scheme_storage] unmarked
    unfolding old_scheme_run old_scheme_names(1)
    by (simp add: fs_touch_def fs_exists_def old_scheme_storage_def)
qed

end
